theory Spec2Isabelle
  imports Complex_Main
begin

section \<open>Data model (types.ts)\<close>

text \<open>
  Every TypeScript \<open>number\<close> is modelled as a real: the finite doubles of the game,
  without rounding, infinities or NaN.  The only exception is \<open>batteryIndex\<close>, an array
  index with the sentinel \<open>-1\<close>, which is an \<open>int\<close>.  The fields \<open>x\<close>, \<open>y\<close> of
  \<open>Point\<close> are called \<open>xc\<close>, \<open>yc\<close> and the field \<open>id\<close> is called \<open>ident\<close>; fields
  that occur in two interfaces are told apart by the interface name
  (\<open>Rocket.target\<close>, \<open>Interceptor.target\<close>, \<open>City.destroyed\<close>, \<open>Battery.destroyed\<close>).
\<close>

record Point =
  xc :: real
  yc :: real

record Entity =
  ident :: string
  pos :: Point

record Rocket = Entity +
  target :: Point
  speed :: real
  angle :: real

record Interceptor = Entity +
  target :: Point
  origin :: Point
  speed :: real
  batteryIndex :: int

record Explosion = Entity +
  radius :: real
  maxRadius :: real
  growing :: bool
  alpha :: real

record City = Entity +
  destroyed :: bool

record Battery = Entity +
  ammo :: real
  maxAmmo :: real
  destroyed :: bool

datatype GameStatus = START | PLAYING | WON | LOST | LEVEL_COMPLETE

record GameState =
  score :: real
  level :: real
  status :: GameStatus
  rockets :: "Rocket list"
  interceptors :: "Interceptor list"
  explosions :: "Explosion list"
  cities :: "City list"
  batteries :: "Battery list"
  destroyedCount :: real

section \<open>Constants (App.tsx, lines 21-28)\<close>

definition TARGET_SCORE :: real where
  "TARGET_SCORE = 3000"

definition CANVAS_WIDTH :: real where
  "CANVAS_WIDTH = 800"

definition EXPLOSION_MAX_RADIUS :: real where
  "EXPLOSION_MAX_RADIUS = 40"

definition EXPLOSION_SPEED :: real where
  "EXPLOSION_SPEED = 1.5"

definition ROCKET_SPEED_BASE :: real where
  "ROCKET_SPEED_BASE = 0.8"

definition INTERCEPTOR_SPEED :: real where
  "INTERCEPTOR_SPEED = 6"

definition SPAWN_RATE_BASE :: real where
  "SPAWN_RATE_BASE = 0.015"

section \<open>The initial layout and \<open>initGame\<close> (lines 32-53 and 97-120)\<close>

definition mk_city :: "string \<Rightarrow> real \<Rightarrow> real \<Rightarrow> City" where
  "mk_city i a b = \<lparr>ident = i, pos = \<lparr>xc = a, yc = b\<rparr>, City.destroyed = False\<rparr>"

definition mk_battery :: "string \<Rightarrow> real \<Rightarrow> real \<Rightarrow> real \<Rightarrow> Battery" where
  "mk_battery i a b n =
     \<lparr>ident = i, pos = \<lparr>xc = a, yc = b\<rparr>, ammo = n, maxAmmo = n, Battery.destroyed = False\<rparr>"

definition layout_cities :: "City list" where
  "layout_cities =
     [mk_city ''c1'' 150 550, mk_city ''c2'' 250 550, mk_city ''c3'' 350 550,
      mk_city ''c4'' 450 550, mk_city ''c5'' 550 550, mk_city ''c6'' 650 550]"

definition layout_batteries :: "Battery list" where
  "layout_batteries =
     [mk_battery ''b1'' 50 550 20, mk_battery ''b2'' 400 550 40, mk_battery ''b3'' 750 550 20]"

text \<open>The argument of \<open>useState\<close>: the state before the first start.\<close>

definition initial_state :: GameState where
  "initial_state =
     \<lparr>score = 0, level = 1, status = START, rockets = [], interceptors = [], explosions = [],
      cities = layout_cities, batteries = layout_batteries, destroyedCount = 0\<rparr>"

text \<open>
  \<open>initGame\<close> calls \<open>setGameState\<close> with an object literal, so the previous state (the
  argument here) is not read.
\<close>

definition initGame :: "GameState \<Rightarrow> GameState" where
  "initGame prev =
     \<lparr>score = 0, level = 1, status = PLAYING, rockets = [], interceptors = [], explosions = [],
      cities = layout_cities, batteries = layout_batteries, destroyedCount = 0\<rparr>"

section \<open>Geometry\<close>

text \<open>\<open>Math.sqrt(dx * dx + dy * dy)\<close>, written out three times in \<open>update\<close>.\<close>

definition hypot :: "real \<Rightarrow> real \<Rightarrow> real" where
  "hypot dx dy = sqrt (dx * dx + dy * dy)"

text \<open>\<open>Math.atan2(y, x)\<close> on finite arguments.\<close>

definition atan2 :: "real \<Rightarrow> real \<Rightarrow> real" where
  "atan2 b a =
     (if 0 < a then arctan (b / a)
      else if a < 0 \<and> 0 \<le> b then arctan (b / a) + pi
      else if a < 0 then arctan (b / a) - pi
      else if 0 < b then pi / 2
      else if b < 0 then - (pi / 2)
      else 0)"

section \<open>Random draws\<close>

text \<open>
  \<open>Math.random()\<close> is an input of the model.  One tick reads \<open>coin\<close> (line 219), then, if it
  spawns, \<open>pick\<close>, \<open>startX\<close> and \<open>rocket_id\<close> (lines 134-136, the identifier already
  converted to its string), and one identifier per Explosion it creates (line 258):
  \<open>explosion_ids n\<close> is the identifier of the \<open>n\<close>-th Explosion created in the tick.
\<close>

record draws =
  coin :: real
  pick :: real
  startX :: real
  rocket_id :: string
  explosion_ids :: "nat \<Rightarrow> string"

section \<open>\<open>spawnRocket\<close> (lines 122-152)\<close>

text \<open>
  \<open>stateRef.current\<close> and the \<open>prev\<close> of the state updater are the same state here: the
  model is the single state container of the specification.  \<open>Math.random()\<close> is below 1,
  which keeps the index into \<open>availableTargets\<close> in range; for a draw outside that range
  the source reads \<open>undefined\<close> and throws at \<open>target.y\<close> before any state update, and
  the model leaves the state as it is.
\<close>

definition spawnRocket :: "draws \<Rightarrow> GameState \<Rightarrow> GameState" where
  "spawnRocket d s =
     (if status s \<noteq> PLAYING then s
      else
        let availableTargets =
              map pos (filter (\<lambda>c. \<not> City.destroyed c) (cities s)) @
              map pos (filter (\<lambda>b. \<not> Battery.destroyed b) (batteries s))
        in if length availableTargets = 0 then s
           else
             let k = \<lfloor>pick d * real (length availableTargets)\<rfloor>
             in if k < 0 \<or> int (length availableTargets) \<le> k then s
                else
                  let target = availableTargets ! nat k;
                      startX = startX d * CANVAS_WIDTH;
                      angle = atan2 (yc target) (xc target - startX);
                      newRocket =
                        \<lparr>ident = rocket_id d, pos = \<lparr>xc = startX, yc = 0\<rparr>,
                         Rocket.target = target,
                         Rocket.speed = ROCKET_SPEED_BASE + level s * 0.2,
                         angle = angle\<rparr>
                  in s\<lparr>rockets := rockets s @ [newRocket]\<rparr>)"

section \<open>\<open>handleCanvasClick\<close> (lines 154-212)\<close>

text \<open>
  The \<open>forEach\<close> of lines 181-189 with its two variables: \<open>nearestBatteryIdx\<close> (an
  \<open>int\<close>, initially \<open>-1\<close>) and \<open>minDist\<close> (\<open>None\<close> is \<open>Infinity\<close>, above every distance).
  The third argument is the index of the head of the list.
\<close>

fun nearest_scan :: "real \<Rightarrow> Battery list \<Rightarrow> nat \<Rightarrow> int \<times> real option \<Rightarrow> int \<times> real option" where
  "nearest_scan x [] idx acc = acc"
| "nearest_scan x (b # bs) idx (nearestBatteryIdx, minDist) =
     nearest_scan x bs (Suc idx)
       (if \<not> Battery.destroyed b then
          (let dist = \<bar>xc (pos b) - x\<bar>
           in if (case minDist of None \<Rightarrow> True | Some m \<Rightarrow> dist < m)
              then (int idx, Some dist)
              else (nearestBatteryIdx, minDist))
        else (nearestBatteryIdx, minDist))"

text \<open>
  The handler is bound to \<open>mousedown\<close> and \<open>touchstart\<close> of the canvas.  Lines 158-175
  read the DOM and turn the event into the canvas coordinates \<open>x\<close>, \<open>y\<close>; the model takes
  that point as its input, \<open>None\<close> when \<open>canvasRef.current\<close> is null (the early return
  of line 159).  The string is the identifier drawn at line 193.  \<open>currentPower\<close> (line
  194) is computed and never used.
\<close>

definition handleCanvasClick :: "Point option \<Rightarrow> string \<Rightarrow> GameState \<Rightarrow> GameState" where
  "handleCanvasClick tap i s =
     (if status s \<noteq> PLAYING then s
      else case tap of
        None \<Rightarrow> s
      | Some p \<Rightarrow>
          let nearestBatteryIdx = fst (nearest_scan (xc p) (batteries s) 0 (- 1, None))
          in if nearestBatteryIdx \<noteq> - 1 then
               let battery = batteries s ! nat nearestBatteryIdx;
                   newInterceptor =
                     \<lparr>ident = i, pos = pos battery,
                      Interceptor.target = \<lparr>xc = xc p, yc = yc p\<rparr>,
                      origin = pos battery,
                      Interceptor.speed = INTERCEPTOR_SPEED,
                      batteryIndex = nearestBatteryIdx\<rparr>
               in s\<lparr>interceptors := interceptors s @ [newInterceptor]\<rparr>
             else s)"

section \<open>\<open>update\<close> (lines 214-319)\<close>

subsection \<open>Step 2: rockets (lines 227-246)\<close>

definition rocket_dist :: "Rocket \<Rightarrow> real" where
  "rocket_dist r =
     hypot (xc (Rocket.target r) - xc (pos r)) (yc (Rocket.target r) - yc (pos r))"

definition rocket_arrived :: "Rocket \<Rightarrow> bool" where
  "rocket_arrived r \<longleftrightarrow> rocket_dist r < Rocket.speed r"

text \<open>
  The moved copy of lines 243-245.  It is built only when \<open>dist < r.speed\<close> is false;
  \<open>dist = 0\<close> then needs a speed that is not positive, which no Rocket of a game has
  (the source would store NaN there; HOL's \<open>0 / 0\<close> is \<open>0\<close>).
\<close>

definition rocket_step :: "Rocket \<Rightarrow> Rocket" where
  "rocket_step r =
     (let dx = xc (Rocket.target r) - xc (pos r);
          dy = yc (Rocket.target r) - yc (pos r);
          dist = hypot dx dy;
          vx = (dx / dist) * Rocket.speed r;
          vy = (dy / dist) * Rocket.speed r
      in r\<lparr>pos := \<lparr>xc = xc (pos r) + vx, yc = yc (pos r) + vy\<rparr>\<rparr>)"

text \<open>
  \<open>cities.find(...)\<close> followed by \<open>cityHit.destroyed = true\<close>: the first City at the
  target is written in place, the others are left alone.  Likewise for Batteries.
\<close>

fun hit_city :: "Point \<Rightarrow> City list \<Rightarrow> City list" where
  "hit_city t [] = []"
| "hit_city t (c # cs) =
     (if xc (pos c) = xc t \<and> yc (pos c) = yc t then c\<lparr>City.destroyed := True\<rparr> # cs
      else c # hit_city t cs)"

fun hit_battery :: "Point \<Rightarrow> Battery list \<Rightarrow> Battery list" where
  "hit_battery t [] = []"
| "hit_battery t (b # bs) =
     (if xc (pos b) = xc t \<and> yc (pos b) = yc t then b\<lparr>Battery.destroyed := True\<rparr> # bs
      else b # hit_battery t bs)"

text \<open>
  The \<open>map\<close> with \<open>filter(Boolean)\<close> over the Rockets, in order.  The writes to the City
  and Battery objects are threaded through: the result is the new Rocket array and the
  contents of \<open>prev.cities\<close> and \<open>prev.batteries\<close> after the writes.
\<close>

fun update_rockets ::
  "Rocket list \<Rightarrow> City list \<Rightarrow> Battery list \<Rightarrow> Rocket list \<times> City list \<times> Battery list" where
  "update_rockets [] cs bs = ([], cs, bs)"
| "update_rockets (r # rs) cs bs =
     (if rocket_arrived r
      then update_rockets rs (hit_city (Rocket.target r) cs) (hit_battery (Rocket.target r) bs)
      else case update_rockets rs cs bs of
             (rs', cs', bs') \<Rightarrow> (rocket_step r # rs', cs', bs'))"

subsection \<open>Step 3: interceptors (lines 248-271)\<close>

definition interceptor_arrived :: "Interceptor \<Rightarrow> bool" where
  "interceptor_arrived i \<longleftrightarrow>
     hypot (xc (Interceptor.target i) - xc (pos i)) (yc (Interceptor.target i) - yc (pos i))
       < Interceptor.speed i"

definition interceptor_step :: "Interceptor \<Rightarrow> Interceptor" where
  "interceptor_step i =
     (let dx = xc (Interceptor.target i) - xc (pos i);
          dy = yc (Interceptor.target i) - yc (pos i);
          dist = hypot dx dy;
          vx = (dx / dist) * Interceptor.speed i;
          vy = (dy / dist) * Interceptor.speed i
      in i\<lparr>pos := \<lparr>xc = xc (pos i) + vx, yc = yc (pos i) + vy\<rparr>\<rparr>)"

text \<open>The object pushed at lines 257-264; the first argument is \<open>destroyedCount\<close>.\<close>

definition new_explosion :: "real \<Rightarrow> string \<Rightarrow> Interceptor \<Rightarrow> Explosion" where
  "new_explosion dc i ic =
     (let currentPower = 0.5 + real_of_int \<lfloor>dc / 5\<rfloor> * 0.5
      in \<lparr>ident = i,
          pos = \<lparr>xc = xc (Interceptor.target ic), yc = yc (Interceptor.target ic)\<rparr>,
          radius = 2,
          maxRadius = EXPLOSION_MAX_RADIUS * currentPower,
          growing = True,
          alpha = 1\<rparr>)"

text \<open>
  The \<open>map\<close> with \<open>filter(Boolean)\<close> over the Interceptors.  \<open>explosions.push\<close> appends to
  the array \<open>prev.explosions\<close> itself; the result is the new Interceptor array and the
  contents of that array after the pushes.  \<open>ids\<close> are the identifiers still to be drawn.
\<close>

fun update_interceptors ::
  "real \<Rightarrow> (nat \<Rightarrow> string) \<Rightarrow> Interceptor list \<Rightarrow> Explosion list
     \<Rightarrow> Interceptor list \<times> Explosion list" where
  "update_interceptors dc ids [] es = ([], es)"
| "update_interceptors dc ids (i # is) es =
     (if interceptor_arrived i
      then update_interceptors dc (\<lambda>n. ids (Suc n)) is (es @ [new_explosion dc (ids 0) i])
      else case update_interceptors dc ids is es of
             (is', es') \<Rightarrow> (interceptor_step i # is', es'))"

subsection \<open>Step 4: explosions (lines 273-283)\<close>

text \<open>The in-place writes of lines 275-281 to one Explosion object.\<close>

definition update_explosion :: "Explosion \<Rightarrow> Explosion" where
  "update_explosion e =
     (if growing e then
        (let e1 = e\<lparr>radius := radius e + EXPLOSION_SPEED\<rparr>
         in if maxRadius e1 \<le> radius e1 then e1\<lparr>growing := False\<rparr> else e1)
      else e\<lparr>radius := radius e - EXPLOSION_SPEED * 0.5, alpha := alpha e - 0.02\<rparr>)"

text \<open>The test of line 282.\<close>

definition explosion_alive :: "Explosion \<Rightarrow> bool" where
  "explosion_alive e \<longleftrightarrow> 0 < radius e \<and> 0 < alpha e"

subsection \<open>Step 5: collisions (lines 285-300)\<close>

definition rocket_hit :: "Explosion list \<Rightarrow> Rocket \<Rightarrow> bool" where
  "rocket_hit es r \<longleftrightarrow>
     list_ex (\<lambda>e. hypot (xc (pos r) - xc (pos e)) (yc (pos r) - yc (pos e)) < radius e) es"

text \<open>
  The \<open>map\<close> with \<open>filter(Boolean)\<close> over the Rockets, threading the variables \<open>score\<close>
  and \<open>destroyedCount\<close>.
\<close>

fun collide :: "Explosion list \<Rightarrow> Rocket list \<Rightarrow> real \<Rightarrow> real \<Rightarrow> Rocket list \<times> real \<times> real" where
  "collide es [] sc dc = ([], sc, dc)"
| "collide es (r # rs) sc dc =
     (if rocket_hit es r then collide es rs (sc + 50) (dc + 1)
      else case collide es rs sc dc of (rs', sc', dc') \<Rightarrow> (r # rs', sc', dc'))"

subsection \<open>The state updater (lines 223-318)\<close>

text \<open>
  The local variables of the updater are the \<open>let\<close>-bound names.  The objects reached
  through \<open>prev\<close> are written in place by steps 2 to 4, so the \<open>...prev\<close> of both
  \<open>return\<close>s spreads the written object: \<open>prev_written\<close> below, whose \<open>cities\<close> and
  \<open>batteries\<close> carry the \<open>destroyed\<close> flags of step 2 and whose \<open>explosions\<close> is the
  array after the pushes of step 3 with every element updated by step 4 (the filtered
  array of step 4 is a new array, bound to the local variable only).  The updater is
  applied once to each state.
\<close>

definition tick :: "(nat \<Rightarrow> string) \<Rightarrow> GameState \<Rightarrow> GameState" where
  "tick ids prev =
     (case update_rockets (rockets prev) (cities prev) (batteries prev) of
        (rockets1, cities1, batteries1) \<Rightarrow>
     case update_interceptors (destroyedCount prev) ids (interceptors prev) (explosions prev) of
        (interceptors1, pushed) \<Rightarrow>
     let written = map update_explosion pushed;
         explosions1 = filter explosion_alive written
     in case collide explosions1 rockets1 (score prev) (destroyedCount prev) of
        (rockets2, score1, destroyedCount1) \<Rightarrow>
     let prev_written = prev\<lparr>cities := cities1, batteries := batteries1, explosions := written\<rparr>;
         result = (\<lambda>st. prev_written
                     \<lparr>rockets := rockets2, interceptors := interceptors1,
                      explosions := explosions1, cities := cities1, batteries := batteries1,
                      score := score1, status := st, destroyedCount := destroyedCount1\<rparr>)
     in if TARGET_SCORE \<le> score1 then result WON
        else if list_all Battery.destroyed batteries1 then result LOST
        else
          let newLevel = real_of_int \<lfloor>score1 / 500\<rfloor> + 1
          in if level prev < newLevel then
               prev_written
                 \<lparr>level := newLevel,
                  batteries := map (\<lambda>b. b\<lparr>ammo := maxAmmo b\<rparr>) batteries1,
                  rockets := [], interceptors := [], score := score1\<rparr>
             else result (status prev))"

text \<open>
  \<open>update\<close>: the guard of line 216, the spawn of lines 219-221 (its state update is
  queued first, so the new Rocket already moves in this tick), then the updater.
\<close>

definition update :: "draws \<Rightarrow> GameState \<Rightarrow> GameState" where
  "update d s =
     (if status s \<noteq> PLAYING then s
      else tick (explosion_ids d)
             (if coin d < SPAWN_RATE_BASE + level s * 0.005 then spawnRocket d s else s))"

section \<open>Runs of the game\<close>

text \<open>
  What happens to the state container: a frame calls \<open>update\<close>, a press on the canvas
  calls \<open>handleCanvasClick\<close>, the buttons of the overlays call \<open>initGame\<close>.
\<close>

datatype event = Frame draws | Press "Point option" string | Start

fun apply_event :: "GameState \<Rightarrow> event \<Rightarrow> GameState" where
  "apply_event s (Frame d) = update d s"
| "apply_event s (Press tap i) = handleCanvasClick tap i s"
| "apply_event s Start = initGame s"

definition run :: "event list \<Rightarrow> GameState" where
  "run evs = foldl apply_event initial_state evs"

text \<open>
  What every state of a run keeps: the positions of the layout, a level of at least 1,
  and Rockets of positive speed.
\<close>

definition game_inv :: "GameState \<Rightarrow> bool" where
  "game_inv s \<longleftrightarrow>
     map pos (cities s) = map pos layout_cities \<and>
     map pos (batteries s) = map pos layout_batteries \<and>
     1 \<le> level s \<and>
     list_all (\<lambda>r. 0 < Rocket.speed r) (rockets s)"

section \<open>Names for the intermediate values of a tick\<close>

text \<open>The state the updater of a frame runs on: the state after the spawn, if any.\<close>

definition with_spawn :: "draws \<Rightarrow> GameState \<Rightarrow> GameState" where
  "with_spawn d s =
     (if coin d < SPAWN_RATE_BASE + level s * 0.005 then spawnRocket d s else s)"

text \<open>The Rocket array after step 2.\<close>

definition moved_rockets :: "GameState \<Rightarrow> Rocket list" where
  "moved_rockets prev = fst (update_rockets (rockets prev) (cities prev) (batteries prev))"

text \<open>The contents of \<open>prev.cities\<close> and \<open>prev.batteries\<close> after the writes of step 2.\<close>

definition struck_cities :: "GameState \<Rightarrow> City list" where
  "struck_cities prev =
     fst (snd (update_rockets (rockets prev) (cities prev) (batteries prev)))"

definition struck_batteries :: "GameState \<Rightarrow> Battery list" where
  "struck_batteries prev =
     snd (snd (update_rockets (rockets prev) (cities prev) (batteries prev)))"

text \<open>The array \<open>prev.explosions\<close> after the pushes of step 3.\<close>

definition pushed_explosions :: "(nat \<Rightarrow> string) \<Rightarrow> GameState \<Rightarrow> Explosion list" where
  "pushed_explosions ids prev =
     snd (update_interceptors (destroyedCount prev) ids (interceptors prev) (explosions prev))"

text \<open>The Explosion array after step 4, the one step 5 tests the Rockets against.\<close>

definition current_explosions :: "(nat \<Rightarrow> string) \<Rightarrow> GameState \<Rightarrow> Explosion list" where
  "current_explosions ids prev =
     filter explosion_alive (map update_explosion (pushed_explosions ids prev))"

text \<open>The Rockets that step 5 finds inside the radius of some Explosion.\<close>

definition caught :: "(nat \<Rightarrow> string) \<Rightarrow> GameState \<Rightarrow> Rocket list" where
  "caught ids prev = filter (rocket_hit (current_explosions ids prev)) (moved_rockets prev)"

text \<open>The variable \<open>score\<close> after step 5.\<close>

definition new_score :: "(nat \<Rightarrow> string) \<Rightarrow> GameState \<Rightarrow> real" where
  "new_score ids prev = score prev + 50 * real (length (caught ids prev))"

text \<open>The three tests that lead to the level-up \<open>return\<close> of line 313.\<close>

definition levels_up :: "(nat \<Rightarrow> string) \<Rightarrow> GameState \<Rightarrow> bool" where
  "levels_up ids prev \<longleftrightarrow>
     new_score ids prev < TARGET_SCORE \<and>
     \<not> list_all Battery.destroyed (struck_batteries prev) \<and>
     level prev < real_of_int \<lfloor>new_score ids prev / 500\<rfloor> + 1"

section \<open>Concrete inputs\<close>

text \<open>Draws of a frame that spawns nothing.\<close>

definition quiet :: draws where
  "quiet = \<lparr>coin = 0.5, pick = 0, startX = 0, rocket_id = ''r'', explosion_ids = (\<lambda>n. ''e'')\<rparr>"

text \<open>
  Nine kills into level 1: one Rocket on its way down to the first Battery, a growing
  Explosion just below it, and a second Explosion 26 frames into its shrinking phase
  (radius \<open>20 - 26 * 0.75\<close>, alpha \<open>1 - 26 * 0.02\<close>).
\<close>

definition levelup_state :: GameState where
  "levelup_state =
     \<lparr>score = 450, level = 1, status = PLAYING,
      rockets = [\<lparr>ident = ''r1'', pos = \<lparr>xc = 50, yc = 100\<rparr>,
                  Rocket.target = \<lparr>xc = 50, yc = 550\<rparr>, Rocket.speed = 1, angle = 0\<rparr>],
      interceptors = [],
      explosions = [\<lparr>ident = ''e1'', pos = \<lparr>xc = 50, yc = 101\<rparr>, radius = 9.5,
                     maxRadius = 20, growing = True, alpha = 1\<rparr>,
                    \<lparr>ident = ''e2'', pos = \<lparr>xc = 400, yc = 300\<rparr>, radius = 0.5,
                     maxRadius = 20, growing = False, alpha = 0.48\<rparr>],
      cities = layout_cities, batteries = layout_batteries, destroyedCount = 9\<rparr>"

text \<open>
  Fifty points short of the target on level 6, two Batteries lost: the first Rocket is
  about to enter an Explosion, the second is one unit above the last Battery.
\<close>

definition last_stand :: GameState where
  "last_stand =
     \<lparr>score = 2950, level = 6, status = PLAYING,
      rockets = [\<lparr>ident = ''r1'', pos = \<lparr>xc = 50, yc = 100\<rparr>,
                  Rocket.target = \<lparr>xc = 50, yc = 550\<rparr>, Rocket.speed = 2, angle = 0\<rparr>,
                 \<lparr>ident = ''r2'', pos = \<lparr>xc = 750, yc = 549\<rparr>,
                  Rocket.target = \<lparr>xc = 750, yc = 550\<rparr>, Rocket.speed = 2, angle = 0\<rparr>],
      interceptors = [],
      explosions = [\<lparr>ident = ''e1'', pos = \<lparr>xc = 50, yc = 101\<rparr>, radius = 9.5,
                     maxRadius = 240, growing = True, alpha = 1\<rparr>],
      cities = layout_cities,
      batteries = [(mk_battery ''b1'' 50 550 20)\<lparr>Battery.destroyed := True\<rparr>,
                   (mk_battery ''b2'' 400 550 40)\<lparr>Battery.destroyed := True\<rparr>,
                   mk_battery ''b3'' 750 550 20],
      destroyedCount = 59\<rparr>"

text \<open>Draws of a frame that spawns a Rocket above the first City, aimed at it.\<close>

definition spawning :: draws where
  "spawning =
     \<lparr>coin = 0, pick = 0, startX = 0.1875, rocket_id = ''r0'', explosion_ids = (\<lambda>n. ''e'')\<rparr>"

text \<open>A PLAYING state in which every City and every Battery is destroyed.\<close>

definition wasteland :: GameState where
  "wasteland =
     \<lparr>score = 0, level = 1, status = PLAYING, rockets = [], interceptors = [], explosions = [],
      cities = map (\<lambda>c. c\<lparr>City.destroyed := True\<rparr>) layout_cities,
      batteries = map (\<lambda>b. b\<lparr>Battery.destroyed := True\<rparr>) layout_batteries,
      destroyedCount = 0\<rparr>"

text \<open>The first Battery has no ammo left, the second is destroyed.\<close>

definition tap_state :: GameState where
  "tap_state =
     \<lparr>score = 0, level = 1, status = PLAYING, rockets = [], interceptors = [], explosions = [],
      cities = layout_cities,
      batteries = [(mk_battery ''b1'' 50 550 20)\<lparr>ammo := 0\<rparr>,
                   (mk_battery ''b2'' 400 550 40)\<lparr>Battery.destroyed := True\<rparr>,
                   mk_battery ''b3'' 750 550 20],
      destroyedCount = 0\<rparr>"

text \<open>
  The first game with one Rocket straight above the first City, at height \<open>h\<close>; and
  the run that brings it down: a start, a frame that spawns it (it moves to height 1 in
  that frame), and 549 frames without a spawn.
\<close>

definition falling :: "real \<Rightarrow> GameState" where
  "falling h =
     \<lparr>score = 0, level = 1, status = PLAYING,
      rockets = [\<lparr>ident = ''r0'', pos = \<lparr>xc = 150, yc = h\<rparr>,
                  Rocket.target = \<lparr>xc = 150, yc = 550\<rparr>, Rocket.speed = 1,
                  angle = atan2 550 0\<rparr>],
      interceptors = [], explosions = [],
      cities = layout_cities, batteries = layout_batteries, destroyedCount = 0\<rparr>"

definition descent :: "event list" where
  "descent = [Start, Frame spawning] @ replicate 549 (Frame quiet)"

text \<open>That Rocket one frame after its spawn, and on its target.\<close>

definition aloft :: Rocket where
  "aloft =
     \<lparr>ident = ''r0'', pos = \<lparr>xc = 150, yc = 1\<rparr>, Rocket.target = \<lparr>xc = 150, yc = 550\<rparr>,
      Rocket.speed = 1, angle = atan2 550 0\<rparr>"

definition landing :: Rocket where
  "landing =
     \<lparr>ident = ''r0'', pos = \<lparr>xc = 150, yc = 550\<rparr>, Rocket.target = \<lparr>xc = 150, yc = 550\<rparr>,
      Rocket.speed = 1, angle = atan2 550 0\<rparr>"

text \<open>
  Level 2 with \<open>destroyedCount\<close> 9: an Interceptor two units from its target, and a
  Rocket that the coming frame moves onto that target.
\<close>

definition intercept_state :: GameState where
  "intercept_state =
     \<lparr>score = 500, level = 2, status = PLAYING,
      rockets = [\<lparr>ident = ''r1'', pos = \<lparr>xc = 50, yc = 498.8\<rparr>,
                  Rocket.target = \<lparr>xc = 50, yc = 550\<rparr>, Rocket.speed = 1.2, angle = 0\<rparr>],
      interceptors = [\<lparr>ident = ''i1'', pos = \<lparr>xc = 50, yc = 502\<rparr>,
                       Interceptor.target = \<lparr>xc = 50, yc = 500\<rparr>,
                       origin = \<lparr>xc = 50, yc = 550\<rparr>, Interceptor.speed = 6,
                       batteryIndex = 0\<rparr>],
      explosions = [],
      cities = layout_cities, batteries = layout_batteries, destroyedCount = 9\<rparr>"

section \<open>Facts about the steps\<close>

lemmas step_defs =
  rocket_arrived_def rocket_dist_def rocket_step_def hypot_def rocket_hit_def
  update_explosion_def explosion_alive_def interceptor_arrived_def interceptor_step_def
  new_explosion_def

lemmas const_defs =
  TARGET_SCORE_def CANVAS_WIDTH_def EXPLOSION_MAX_RADIUS_def EXPLOSION_SPEED_def
  ROCKET_SPEED_BASE_def INTERCEPTOR_SPEED_def SPAWN_RATE_BASE_def

lemmas layout_defs = layout_cities_def layout_batteries_def mk_city_def mk_battery_def

lemmas phase_defs =
  with_spawn_def moved_rockets_def pushed_explosions_def current_explosions_def caught_def
  struck_cities_def struck_batteries_def new_score_def

lemmas eval_defs =
  update_def tick_def quiet_def spawnRocket_def step_defs const_defs layout_defs Let_def

lemma update_rockets_fst:
  "fst (update_rockets rs cs bs) = map rocket_step (filter (\<lambda>r. \<not> rocket_arrived r) rs)"
  by (induction rs arbitrary: cs bs) (simp_all add: case_prod_beta)

lemma collide_eq:
  "collide es rs sc dc =
     (filter (\<lambda>r. \<not> rocket_hit es r) rs,
      sc + 50 * real (length (filter (rocket_hit es) rs)),
      dc + real (length (filter (rocket_hit es) rs)))"
  by (induction rs arbitrary: sc dc) (simp_all add: case_prod_beta)

lemma update_interceptors_fst:
  "fst (update_interceptors dc ids is es) =
     map interceptor_step (filter (\<lambda>i. \<not> interceptor_arrived i) is)"
  by (induction "is" arbitrary: ids es) (simp_all add: case_prod_beta)

lemma update_interceptors_snd:
  "snd (update_interceptors dc ids is es) =
     es @ map (\<lambda>(n, i). new_explosion dc (ids n) i) (enumerate 0 (filter interceptor_arrived is))"
proof (induction "is" arbitrary: ids es)
  case Nil
  then show ?case by simp
next
  case (Cons i "is")
  show ?case
  proof (cases "interceptor_arrived i")
    case True
    have "map (\<lambda>(n, j). new_explosion dc (ids (Suc n)) j) (enumerate 0 xs)
        = map (\<lambda>(n, j). new_explosion dc (ids n) j) (enumerate (Suc 0) xs)" for xs
      by (simp add: enumerate_Suc_eq[of 0] case_prod_beta comp_def)
    with True Cons.IH[of "\<lambda>n. ids (Suc n)"] show ?thesis by simp
  next
    case False
    with Cons.IH[of ids es] show ?thesis by (simp add: case_prod_beta)
  qed
qed

lemma update_tick:
  "status s = PLAYING \<Longrightarrow> update d s = tick (explosion_ids d) (with_spawn d s)"
  by (simp add: update_def with_spawn_def)

lemma status_spawnRocket: "status (spawnRocket d s) = status s"
  by (simp add: spawnRocket_def Let_def)

lemma status_with_spawn: "status (with_spawn d s) = status s"
  by (simp add: with_spawn_def status_spawnRocket)

text \<open>The two \<open>return\<close>s of the updater.\<close>

lemma tick_levelup:
  "levels_up ids prev \<Longrightarrow>
   tick ids prev =
     prev\<lparr>cities := struck_cities prev,
          explosions := map update_explosion (pushed_explosions ids prev),
          level := real_of_int \<lfloor>new_score ids prev / 500\<rfloor> + 1,
          batteries := map (\<lambda>b. b\<lparr>ammo := maxAmmo b\<rparr>) (struck_batteries prev),
          rockets := [], interceptors := [], score := new_score ids prev\<rparr>"
  by (simp add: levels_up_def tick_def Let_def case_prod_beta collide_eq phase_defs)

lemma tick_other:
  "\<not> levels_up ids prev \<Longrightarrow>
   tick ids prev =
     prev\<lparr>rockets := filter (\<lambda>r. \<not> rocket_hit (current_explosions ids prev) r) (moved_rockets prev),
          interceptors :=
            map interceptor_step (filter (\<lambda>i. \<not> interceptor_arrived i) (interceptors prev)),
          explosions := current_explosions ids prev,
          cities := struck_cities prev,
          batteries := struck_batteries prev,
          score := new_score ids prev,
          status := (if TARGET_SCORE \<le> new_score ids prev then WON
                     else if list_all Battery.destroyed (struck_batteries prev) then LOST
                     else status prev),
          destroyedCount := destroyedCount prev + real (length (caught ids prev))\<rparr>"
proof -
  assume n: "\<not> levels_up ids prev"
  consider (won) "TARGET_SCORE \<le> new_score ids prev"
    | (lost) "new_score ids prev < TARGET_SCORE"
             "list_all Battery.destroyed (struck_batteries prev)"
    | (go) "new_score ids prev < TARGET_SCORE"
           "\<not> list_all Battery.destroyed (struck_batteries prev)"
           "\<not> level prev < real_of_int \<lfloor>new_score ids prev / 500\<rfloor> + 1"
    using n unfolding levels_up_def by fastforce
  then show ?thesis
  proof cases
    case won
    then show ?thesis
      by (simp add: tick_def Let_def case_prod_beta collide_eq phase_defs
          update_interceptors_fst)
  next
    case lost
    then show ?thesis
      by (simp add: tick_def Let_def case_prod_beta collide_eq phase_defs
          update_interceptors_fst)
  next
    case go
    then show ?thesis
      by (simp add: tick_def Let_def case_prod_beta collide_eq phase_defs
          update_interceptors_fst)
  qed
qed

lemma tick_score: "score (tick ids prev) = new_score ids prev"
  by (cases "levels_up ids prev") (simp_all add: tick_levelup tick_other)

lemma tick_cities: "cities (tick ids prev) = struck_cities prev"
  by (cases "levels_up ids prev") (simp_all add: tick_levelup tick_other)

lemma tick_batteries_destroyed:
  "map Battery.destroyed (batteries (tick ids prev)) = map Battery.destroyed (struck_batteries prev)"
  by (cases "levels_up ids prev") (simp_all add: tick_levelup tick_other comp_def)

lemma list_all_cong_map: "map f xs = map f ys \<Longrightarrow> list_all f xs = list_all f ys"
proof -
  assume "map f xs = map f ys"
  then have "list_all (\<lambda>b. b) (map f xs) = list_all (\<lambda>b. b) (map f ys)" by simp
  then show ?thesis by (simp add: list.pred_map comp_def)
qed

lemma tick_all_destroyed:
  "list_all Battery.destroyed (batteries (tick ids prev))
     = list_all Battery.destroyed (struck_batteries prev)"
  using tick_batteries_destroyed[of ids prev] by (rule list_all_cong_map)

section \<open>Win before loss\<close>

text \<open>
  C1.  A tick during PLAYING whose resulting score is at least 3000 ends in status WON,
  whatever the Batteries look like after the impacts of that tick: the loss test is
  only reached when the win test fails.
\<close>

theorem win_precedence:
  "status s = PLAYING \<Longrightarrow> TARGET_SCORE \<le> score (update d s) \<Longrightarrow> status (update d s) = WON"
proof -
  assume p: "status s = PLAYING" and w: "TARGET_SCORE \<le> score (update d s)"
  let ?prev = "with_spawn d s" and ?ids = "explosion_ids d"
  from p have u: "update d s = tick ?ids ?prev" by (rule update_tick)
  with w have sc: "TARGET_SCORE \<le> new_score ?ids ?prev" by (simp add: tick_score)
  then have "\<not> levels_up ?ids ?prev" by (simp add: levels_up_def)
  then show ?thesis using sc u by (simp add: tick_other)
qed

text \<open>
  In \<open>last_stand\<close> the tick takes the score from 2950 to 3000 and destroys the last
  Battery: the status is WON.
\<close>

theorem win_precedence_witness:
  "status last_stand = PLAYING \<and> TARGET_SCORE \<le> score (update quiet last_stand)
   \<and> list_all Battery.destroyed (batteries (update quiet last_stand))
   \<and> status (update quiet last_stand) = WON"
proof -
  have 1: "status last_stand = PLAYING" by (simp add: last_stand_def)
  have 2: "TARGET_SCORE \<le> score (update quiet last_stand)"
    by (simp add: eval_defs last_stand_def)
  have 3: "list_all Battery.destroyed (batteries (update quiet last_stand))"
    by (simp add: eval_defs last_stand_def)
  from win_precedence[OF 1 2] 1 2 3 show ?thesis by simp
qed

section \<open>Level-up\<close>

text \<open>
  C2.  A tick during PLAYING that ends with a score below 3000, with some Battery not
  destroyed, and with \<open>floor (score / 500) + 1\<close> above the level before the tick, ends
  with the level equal to \<open>floor (score / 500) + 1\<close>, with no Rockets and no
  Interceptors, and with the ammo of every Battery, destroyed or not, equal to its
  \<open>maxAmmo\<close>.
\<close>

theorem level_up:
  "status s = PLAYING \<Longrightarrow> score (update d s) < TARGET_SCORE \<Longrightarrow>
   \<not> list_all Battery.destroyed (batteries (update d s)) \<Longrightarrow>
   level s < real_of_int \<lfloor>score (update d s) / 500\<rfloor> + 1 \<Longrightarrow>
   level (update d s) = real_of_int \<lfloor>score (update d s) / 500\<rfloor> + 1 \<and>
   rockets (update d s) = [] \<and> interceptors (update d s) = [] \<and>
   list_all (\<lambda>b. ammo b = maxAmmo b) (batteries (update d s))"
proof -
  assume p: "status s = PLAYING" and sc: "score (update d s) < TARGET_SCORE"
    and alive: "\<not> list_all Battery.destroyed (batteries (update d s))"
    and lv: "level s < real_of_int \<lfloor>score (update d s) / 500\<rfloor> + 1"
  let ?prev = "with_spawn d s" and ?ids = "explosion_ids d"
  from p have u: "update d s = tick ?ids ?prev" by (rule update_tick)
  have l: "level ?prev = level s" by (simp add: with_spawn_def spawnRocket_def Let_def)
  from alive u have a: "\<not> list_all Battery.destroyed (struck_batteries ?prev)"
    by (simp add: tick_all_destroyed)
  from sc lv a u l have "levels_up ?ids ?prev" by (simp add: levels_up_def tick_score)
  then show ?thesis using u by (simp add: tick_levelup list_all_iff)
qed

text \<open>In \<open>levelup_state\<close> one kill takes the score from 450 to 500 on level 1.\<close>

theorem level_up_witness:
  "status levelup_state = PLAYING \<and> score (update quiet levelup_state) < TARGET_SCORE \<and>
   \<not> list_all Battery.destroyed (batteries (update quiet levelup_state)) \<and>
   level levelup_state < real_of_int \<lfloor>score (update quiet levelup_state) / 500\<rfloor> + 1 \<and>
   level (update quiet levelup_state) = 2 \<and>
   rockets (update quiet levelup_state) = [] \<and> interceptors (update quiet levelup_state) = [] \<and>
   list_all (\<lambda>b. ammo b = maxAmmo b) (batteries (update quiet levelup_state))"
proof -
  have sc: "score (update quiet levelup_state) = 500"
    by (simp add: eval_defs levelup_state_def)
  have 1: "status levelup_state = PLAYING" by (simp add: levelup_state_def)
  have 2: "score (update quiet levelup_state) < TARGET_SCORE"
    by (simp add: sc TARGET_SCORE_def)
  have 3: "\<not> list_all Battery.destroyed (batteries (update quiet levelup_state))"
    by (simp add: eval_defs levelup_state_def)
  have 4: "level levelup_state < real_of_int \<lfloor>score (update quiet levelup_state) / 500\<rfloor> + 1"
    by (simp add: sc) (simp add: levelup_state_def)
  from level_up[OF 1 2 3 4] 1 2 3 4 show ?thesis by (simp add: sc)
qed

section \<open>Kills and their count\<close>

text \<open>
  Every tick adds 50 to the score for each Rocket caught.  The kill counter follows on
  the ordinary \<open>return\<close> only: the level-up \<open>return\<close> spreads \<open>prev\<close> and overrides
  \<open>score\<close>, not \<open>destroyedCount\<close>.
\<close>

lemma update_score:
  "status s = PLAYING \<Longrightarrow>
   score (update d s) = score s + 50 * real (length (caught (explosion_ids d) (with_spawn d s)))"
  by (simp add: update_tick tick_score new_score_def with_spawn_def spawnRocket_def Let_def)

lemma update_destroyedCount:
  "status s = PLAYING \<Longrightarrow>
   destroyedCount (update d s) =
     (if levels_up (explosion_ids d) (with_spawn d s) then destroyedCount s
      else destroyedCount s + real (length (caught (explosion_ids d) (with_spawn d s))))"
  by (simp add: update_tick tick_levelup tick_other)
     (simp add: with_spawn_def spawnRocket_def Let_def)

text \<open>
  C3.  A tick during PLAYING that catches \<open>k\<close> Rockets adds \<open>50 * k\<close> to the score and
  \<open>k\<close> to \<open>destroyedCount\<close>, also when it levels up: this fails on a tick that levels
  up.  In \<open>levelup_state\<close> (score 450, \<open>destroyedCount\<close> 9) the tick catches one
  Rocket; the score becomes 500 and \<open>destroyedCount\<close> is still 9, not 10.
\<close>

theorem kill_on_levelup_not_counted:
  "status levelup_state = PLAYING \<and>
   length (caught (explosion_ids quiet) (with_spawn quiet levelup_state)) = 1 \<and>
   score levelup_state = 450 \<and> score (update quiet levelup_state) = 500 \<and>
   destroyedCount levelup_state = 9 \<and> destroyedCount (update quiet levelup_state) = 9"
proof -
  have w: "with_spawn quiet levelup_state = levelup_state"
    by (simp add: with_spawn_def quiet_def levelup_state_def const_defs)
  have c: "length (caught (explosion_ids quiet) levelup_state) = 1"
    by (simp add: phase_defs levelup_state_def step_defs const_defs layout_defs Let_def)
  have u: "score (update quiet levelup_state) = 500 \<and>
           destroyedCount (update quiet levelup_state) = 9"
    by (simp add: eval_defs levelup_state_def)
  show ?thesis using w c u by (simp add: levelup_state_def)
qed

section \<open>Explosions in the state\<close>

text \<open>On the ordinary \<open>return\<close> the state holds the filtered array of step 4.\<close>

lemma explosions_alive_unless_levelup:
  "status s = PLAYING \<Longrightarrow> \<not> levels_up (explosion_ids d) (with_spawn d s) \<Longrightarrow>
   list_all explosion_alive (explosions (update d s))"
  by (simp add: update_tick tick_other current_explosions_def list_all_iff)

text \<open>
  C6.  Every Explosion in the state after a tick during PLAYING has a positive radius
  and a positive alpha, also when the tick levels up: this fails on a tick that levels
  up, whose state holds the unfiltered array.  In \<open>levelup_state\<close> the second
  Explosion shrinks from radius 0.5 to -0.25 and is still in the state that the tick
  returns.
\<close>

theorem dead_explosion_kept_on_levelup:
  "status levelup_state = PLAYING \<and>
   map radius (explosions (update quiet levelup_state)) = [11, - 0.25] \<and>
   \<not> list_all explosion_alive (explosions (update quiet levelup_state))"
  by (simp add: eval_defs levelup_state_def)

section \<open>Taps\<close>

lemma nearest_scan_none:
  "list_all Battery.destroyed bs \<Longrightarrow> nearest_scan x bs n acc = acc"
  by (induction bs arbitrary: n acc) auto

text \<open>
  What the scan returns from an accumulator \<open>(n, md)\<close>: either the accumulator, or the
  index of a Battery that is not destroyed together with its distance; that distance
  is below every distance seen.
\<close>

lemma nearest_scan_spec:
  "nearest_scan x bs idx (n, md) = (n', md') \<Longrightarrow>
   (md' = None \<longrightarrow> md = None \<and> n' = n \<and> list_all Battery.destroyed bs) \<and>
   (\<forall>m'. md' = Some m' \<longrightarrow>
      ((n' = n \<and> md = Some m') \<or>
       (\<exists>j<length bs. n' = int (idx + j) \<and> \<not> Battery.destroyed (bs ! j) \<and>
          m' = \<bar>xc (pos (bs ! j)) - x\<bar>)) \<and>
      (\<forall>j<length bs. \<not> Battery.destroyed (bs ! j) \<longrightarrow> m' \<le> \<bar>xc (pos (bs ! j)) - x\<bar>) \<and>
      (\<forall>m. md = Some m \<longrightarrow> m' \<le> m))"
proof (induction bs arbitrary: idx n md)
  case Nil
  then show ?case by auto
next
  case (Cons b bs)
  let ?acc = "(if \<not> Battery.destroyed b then
          (let dist = \<bar>xc (pos b) - x\<bar>
           in if (case md of None \<Rightarrow> True | Some m \<Rightarrow> dist < m)
              then (int idx, Some dist)
              else (n, md))
        else (n, md))"
  from Cons.prems have step: "nearest_scan x bs (Suc idx) (fst ?acc, snd ?acc) = (n', md')"
    by simp
  note IH = Cons.IH[OF step]
  show ?case
  proof (cases "Battery.destroyed b")
    case True
    with IH show ?thesis
      by (auto simp: Ex_less_Suc2 All_less_Suc2 algebra_simps)
  next
    case False
    show ?thesis
    proof (cases "case md of None \<Rightarrow> True | Some m \<Rightarrow> \<bar>xc (pos b) - x\<bar> < m")
      case True
      with False IH show ?thesis
        by (auto simp: Ex_less_Suc2 All_less_Suc2 algebra_simps split: option.splits)
    next
      case False
      with \<open>\<not> Battery.destroyed b\<close> IH show ?thesis
        by (auto simp: Ex_less_Suc2 All_less_Suc2 algebra_simps split: option.splits)
    qed
  qed
qed

lemma nearest_scan_found:
  assumes "\<not> list_all Battery.destroyed bs"
  shows "\<exists>k<length bs. fst (nearest_scan x bs 0 (- 1, None)) = int k \<and>
           \<not> Battery.destroyed (bs ! k) \<and>
           (\<forall>j<length bs. \<not> Battery.destroyed (bs ! j) \<longrightarrow>
              \<bar>xc (pos (bs ! k)) - x\<bar> \<le> \<bar>xc (pos (bs ! j)) - x\<bar>)"
proof -
  obtain n' md' where r: "nearest_scan x bs 0 (- 1, None) = (n', md')"
    by (cases "nearest_scan x bs 0 (- 1, None)")
  note spec = nearest_scan_spec[OF r]
  from spec[THEN conjunct1] have "md' = None \<longrightarrow> list_all Battery.destroyed bs" by blast
  with assms obtain m' where m: "md' = Some m'" by (cases md') simp_all
  note s2 = spec[THEN conjunct2, rule_format, OF m]
  from s2[THEN conjunct1] obtain k where k: "k < length bs" "n' = int (0 + k)"
      "\<not> Battery.destroyed (bs ! k)" "m' = \<bar>xc (pos (bs ! k)) - x\<bar>"
    by blast
  from s2[THEN conjunct2, THEN conjunct1] k(4)
  have "\<forall>j<length bs. \<not> Battery.destroyed (bs ! j) \<longrightarrow>
          \<bar>xc (pos (bs ! k)) - x\<bar> \<le> \<bar>xc (pos (bs ! j)) - x\<bar>"
    by simp
  with k(1,2,3) r show ?thesis by (intro exI[of _ k]) simp
qed

text \<open>
  C7.  The guards are no-ops: a tap while the status is not PLAYING returns the state
  as it is; so does a tap during PLAYING when every Battery is destroyed; and
  \<open>spawnRocket\<close> returns the state as it is, with no Rocket appended, when every City
  and every Battery is destroyed.  The model has no error result for either function.
\<close>

theorem guards_are_noops:
  "(status s \<noteq> PLAYING \<longrightarrow> handleCanvasClick tap i s = s) \<and>
   (status s = PLAYING \<and> list_all Battery.destroyed (batteries s) \<longrightarrow> handleCanvasClick tap i s = s) \<and>
   (list_all City.destroyed (cities s) \<and> list_all Battery.destroyed (batteries s) \<longrightarrow>
      spawnRocket d s = s)"
proof (intro conjI impI)
  assume "status s \<noteq> PLAYING"
  then show "handleCanvasClick tap i s = s" by (simp add: handleCanvasClick_def)
next
  assume "status s = PLAYING \<and> list_all Battery.destroyed (batteries s)"
  then show "handleCanvasClick tap i s = s"
    by (simp add: handleCanvasClick_def nearest_scan_none split: option.splits)
next
  assume a: "list_all City.destroyed (cities s) \<and> list_all Battery.destroyed (batteries s)"
  then have "filter (\<lambda>c. \<not> City.destroyed c) (cities s) = []"
    and "filter (\<lambda>b. \<not> Battery.destroyed b) (batteries s) = []"
    by (simp_all add: list_all_iff filter_empty_conv)
  then show "spawnRocket d s = s" by (simp add: spawnRocket_def)
qed

text \<open>A tap before the first start, and a tap and a spawn in \<open>wasteland\<close>.\<close>

theorem guards_are_noops_witness:
  "status initial_state \<noteq> PLAYING \<and>
   handleCanvasClick (Some \<lparr>xc = 300, yc = 200\<rparr>) ''i1'' initial_state = initial_state \<and>
   status wasteland = PLAYING \<and> list_all City.destroyed (cities wasteland) \<and>
   list_all Battery.destroyed (batteries wasteland) \<and>
   handleCanvasClick (Some \<lparr>xc = 300, yc = 200\<rparr>) ''i1'' wasteland = wasteland \<and>
   spawnRocket spawning wasteland = wasteland"
proof -
  have 1: "status initial_state \<noteq> PLAYING" by (simp add: initial_state_def)
  have 2: "status wasteland = PLAYING" by (simp add: wasteland_def)
  have 3: "list_all City.destroyed (cities wasteland)" by (simp add: wasteland_def layout_defs)
  have 4: "list_all Battery.destroyed (batteries wasteland)"
    by (simp add: wasteland_def layout_defs)
  note g = guards_are_noops[of _ "Some \<lparr>xc = 300, yc = 200\<rparr>" "''i1''" spawning]
  note g1 = g[of initial_state, THEN conjunct1, rule_format, OF 1]
  note g2 = g[of wasteland, THEN conjunct2, THEN conjunct1, rule_format, OF conjI[OF 2 4]]
  note g3 = g[of wasteland, THEN conjunct2, THEN conjunct2, rule_format, OF conjI[OF 3 4]]
  show ?thesis by (intro conjI 1 2 3 4 g1 g2 g3)
qed

text \<open>
  C8.  A tap at \<open>p\<close> during PLAYING with some Battery not destroyed appends one
  Interceptor and changes nothing else: its origin and position are the position of
  a Battery \<open>k\<close> that is not destroyed and whose distance in x to the tap is minimal
  among the Batteries that are not destroyed, its target is \<open>p\<close>, its speed is 6.
  The Batteries, so their ammo, are those of the state before.
\<close>

theorem tap_fires:
  "status s = PLAYING \<Longrightarrow> \<not> list_all Battery.destroyed (batteries s) \<Longrightarrow>
   \<exists>k<length (batteries s).
     \<not> Battery.destroyed (batteries s ! k) \<and>
     (\<forall>j<length (batteries s). \<not> Battery.destroyed (batteries s ! j) \<longrightarrow>
        \<bar>xc (pos (batteries s ! k)) - xc p\<bar> \<le> \<bar>xc (pos (batteries s ! j)) - xc p\<bar>) \<and>
     handleCanvasClick (Some p) i s =
       s\<lparr>interceptors := interceptors s @
           [\<lparr>ident = i, pos = pos (batteries s ! k), Interceptor.target = p,
             origin = pos (batteries s ! k), Interceptor.speed = 6, batteryIndex = int k\<rparr>]\<rparr>"
proof -
  assume p: "status s = PLAYING" and a: "\<not> list_all Battery.destroyed (batteries s)"
  from nearest_scan_found[OF a, of "xc p"] obtain k where
    k: "k < length (batteries s)" "fst (nearest_scan (xc p) (batteries s) 0 (- 1, None)) = int k"
       "\<not> Battery.destroyed (batteries s ! k)"
       "\<forall>j<length (batteries s). \<not> Battery.destroyed (batteries s ! j) \<longrightarrow>
          \<bar>xc (pos (batteries s ! k)) - xc p\<bar> \<le> \<bar>xc (pos (batteries s ! j)) - xc p\<bar>"
    by blast
  have "handleCanvasClick (Some p) i s =
       s\<lparr>interceptors := interceptors s @
           [\<lparr>ident = i, pos = pos (batteries s ! k), Interceptor.target = p,
             origin = pos (batteries s ! k), Interceptor.speed = 6, batteryIndex = int k\<rparr>]\<rparr>"
    using p k(2) by (simp add: handleCanvasClick_def INTERCEPTOR_SPEED_def Let_def)
  with k show ?thesis by blast
qed

text \<open>
  In \<open>tap_state\<close> a tap at \<open>(300, 200)\<close> is closest to the destroyed second Battery;
  the first Battery fires although its ammo is 0, and the ammo stays \<open>[0, 40, 20]\<close>.
\<close>

theorem tap_fires_witness:
  "status tap_state = PLAYING \<and> \<not> list_all Battery.destroyed (batteries tap_state) \<and>
   (\<exists>k<length (batteries tap_state).
     \<not> Battery.destroyed (batteries tap_state ! k) \<and>
     handleCanvasClick (Some \<lparr>xc = 300, yc = 200\<rparr>) ''i1'' tap_state =
       tap_state\<lparr>interceptors := interceptors tap_state @
           [\<lparr>ident = ''i1'', pos = pos (batteries tap_state ! k),
             Interceptor.target = \<lparr>xc = 300, yc = 200\<rparr>,
             origin = pos (batteries tap_state ! k), Interceptor.speed = 6,
             batteryIndex = int k\<rparr>]\<rparr>) \<and>
   handleCanvasClick (Some \<lparr>xc = 300, yc = 200\<rparr>) ''i1'' tap_state =
     tap_state\<lparr>interceptors :=
       [\<lparr>ident = ''i1'', pos = \<lparr>xc = 50, yc = 550\<rparr>, Interceptor.target = \<lparr>xc = 300, yc = 200\<rparr>,
         origin = \<lparr>xc = 50, yc = 550\<rparr>, Interceptor.speed = 6, batteryIndex = 0\<rparr>]\<rparr> \<and>
   map ammo (batteries (handleCanvasClick (Some \<lparr>xc = 300, yc = 200\<rparr>) ''i1'' tap_state)) = [0, 40, 20]"
proof -
  have 1: "status tap_state = PLAYING" by (simp add: tap_state_def)
  have 2: "\<not> list_all Battery.destroyed (batteries tap_state)"
    by (simp add: tap_state_def mk_battery_def)
  have 3: "handleCanvasClick (Some \<lparr>xc = 300, yc = 200\<rparr>) ''i1'' tap_state =
     tap_state\<lparr>interceptors :=
       [\<lparr>ident = ''i1'', pos = \<lparr>xc = 50, yc = 550\<rparr>, Interceptor.target = \<lparr>xc = 300, yc = 200\<rparr>,
         origin = \<lparr>xc = 50, yc = 550\<rparr>, Interceptor.speed = 6, batteryIndex = 0\<rparr>]\<rparr>"
    by (simp add: handleCanvasClick_def tap_state_def mk_battery_def INTERCEPTOR_SPEED_def Let_def)
  have 4: "map ammo (batteries (handleCanvasClick (Some \<lparr>xc = 300, yc = 200\<rparr>) ''i1'' tap_state)) = [0, 40, 20]"
    by (simp add: 3) (simp add: tap_state_def mk_battery_def)
  from tap_fires[OF 1 2, of "\<lparr>xc = 300, yc = 200\<rparr>" "''i1''"] 1 2 3 4 show ?thesis
    by blast
qed

section \<open>Restart\<close>

text \<open>
  C9.  \<open>initGame\<close> returns the same state from every state: score 0, level 1,
  \<open>destroyedCount\<close> 0, no Rockets, Interceptors or Explosions, the six Cities at
  \<open>(150, 550)\<close> to \<open>(650, 550)\<close> not destroyed, and the three Batteries at
  \<open>(50, 550)\<close>, \<open>(400, 550)\<close>, \<open>(750, 550)\<close> not destroyed, with ammo and
  \<open>maxAmmo\<close> 20, 40, 20.
\<close>

theorem restart_canonical:
  "initGame s = initGame s' \<and>
   score (initGame s) = 0 \<and> level (initGame s) = 1 \<and> destroyedCount (initGame s) = 0 \<and>
   rockets (initGame s) = [] \<and> interceptors (initGame s) = [] \<and>
   explosions (initGame s) = [] \<and>
   map (\<lambda>c. (xc (pos c), yc (pos c), City.destroyed c)) (cities (initGame s)) =
     [(150, 550, False), (250, 550, False), (350, 550, False),
      (450, 550, False), (550, 550, False), (650, 550, False)] \<and>
   map (\<lambda>b. (xc (pos b), yc (pos b), ammo b, maxAmmo b, Battery.destroyed b))
       (batteries (initGame s)) =
     [(50, 550, 20, 20, False), (400, 550, 40, 40, False), (750, 550, 20, 20, False)]"
  by (simp add: initGame_def layout_defs)

section \<open>Runs\<close>

lemma run_snoc: "run (evs @ [e]) = apply_event (run evs) e"
  by (simp add: run_def)

lemma update_status: "status (update d s) = status s \<or> status (update d s) = WON \<or> status (update d s) = LOST"
proof (cases "status s = PLAYING")
  case True
  show ?thesis
  proof (cases "levels_up (explosion_ids d) (with_spawn d s)")
    case l: True
    with True show ?thesis by (simp add: update_tick tick_levelup status_with_spawn)
  next
    case l: False
    with True show ?thesis by (simp add: update_tick tick_other status_with_spawn)
  qed
next
  case False
  then show ?thesis by (simp add: update_def)
qed

lemma handleCanvasClick_status: "status (handleCanvasClick tap i s) = status s"
  by (simp add: handleCanvasClick_def Let_def split: option.splits)

text \<open>
  C10.  After any sequence of frames, taps and starts from the initial state the status
  is START, PLAYING, WON or LOST, never LEVEL_COMPLETE: no operation assigns it.
\<close>

theorem level_complete_unreachable:
  "status (run evs) \<in> {START, PLAYING, WON, LOST} \<and> status (run evs) \<noteq> LEVEL_COMPLETE"
proof (induction evs rule: rev_induct)
  case Nil
  then show ?case by (simp add: run_def initial_state_def)
next
  case (snoc e evs)
  show ?case
  proof (cases e)
    case (Frame d)
    with snoc update_status[of d "run evs"] show ?thesis
      by (auto simp: run_snoc)
  next
    case (Press tap i)
    with snoc show ?thesis by (simp add: run_snoc handleCanvasClick_status)
  next
    case Start
    then show ?thesis by (simp add: run_snoc initGame_def)
  qed
qed

subsection \<open>What a run keeps\<close>

lemma hit_city_pos: "map pos (hit_city t cs) = map pos cs"
  by (induction cs) simp_all

lemma hit_battery_pos: "map pos (hit_battery t bs) = map pos bs"
  by (induction bs) simp_all

lemma update_rockets_pos:
  "map pos (fst (snd (update_rockets rs cs bs))) = map pos cs \<and>
   map pos (snd (snd (update_rockets rs cs bs))) = map pos bs"
  by (induction rs arbitrary: cs bs) (simp_all add: case_prod_beta hit_city_pos hit_battery_pos)

lemma layout_distinct:
  "distinct (map pos layout_cities)" "distinct (map pos layout_batteries)"
  by (simp_all add: layout_defs)

lemma inv_initial: "game_inv initial_state"
  by (simp add: game_inv_def initial_state_def)

lemma inv_initGame: "game_inv (initGame s)"
  by (simp add: game_inv_def initGame_def)

lemma inv_handleCanvasClick: "game_inv s \<Longrightarrow> game_inv (handleCanvasClick tap i s)"
  by (simp add: game_inv_def handleCanvasClick_def Let_def split: option.splits)

lemma inv_spawnRocket: "game_inv s \<Longrightarrow> game_inv (spawnRocket d s)"
  by (simp add: game_inv_def spawnRocket_def Let_def ROCKET_SPEED_BASE_def)

lemma inv_with_spawn: "game_inv s \<Longrightarrow> game_inv (with_spawn d s)"
  by (simp add: with_spawn_def inv_spawnRocket)

lemma speed_rocket_step: "Rocket.speed (rocket_step r) = Rocket.speed r"
  by (simp add: rocket_step_def Let_def)

lemma inv_tick: "game_inv prev \<Longrightarrow> game_inv (tick ids prev)"
proof -
  assume i: "game_inv prev"
  have p: "map pos (struck_cities prev) = map pos (cities prev)"
      "map pos (struck_batteries prev) = map pos (batteries prev)"
    by (simp_all add: struck_cities_def struck_batteries_def update_rockets_pos)
  show ?thesis
  proof (cases "levels_up ids prev")
    case True
    then have "level prev < real_of_int \<lfloor>new_score ids prev / 500\<rfloor> + 1"
      by (simp add: levels_up_def)
    with i have "1 \<le> real_of_int \<lfloor>new_score ids prev / 500\<rfloor> + 1"
      unfolding game_inv_def by linarith
    with i True p show ?thesis
      by (simp add: tick_levelup game_inv_def comp_def)
  next
    case False
    from i have "list_all (\<lambda>r. 0 < Rocket.speed r) (moved_rockets prev)"
      by (simp add: game_inv_def moved_rockets_def update_rockets_fst list_all_iff speed_rocket_step)
    then have "list_all (\<lambda>r. 0 < Rocket.speed r)
        (filter (\<lambda>r. \<not> rocket_hit (current_explosions ids prev) r) (moved_rockets prev))"
      by (simp add: list_all_iff)
    with i False p show ?thesis
      by (simp add: tick_other game_inv_def)
  qed
qed

lemma inv_update: "game_inv s \<Longrightarrow> game_inv (update d s)"
proof (cases "status s = PLAYING")
  case True
  assume "game_inv s"
  with True show ?thesis by (simp add: update_tick inv_tick inv_with_spawn)
next
  case False
  assume "game_inv s"
  with False show ?thesis by (simp add: update_def)
qed

lemma inv_run: "game_inv (run evs)"
proof (induction evs rule: rev_induct)
  case Nil
  then show ?case by (simp add: run_def inv_initial)
next
  case (snoc e evs)
  then show ?case
    by (cases e) (simp_all add: run_snoc inv_update inv_handleCanvasClick inv_initGame)
qed

section \<open>Arrival of a Rocket\<close>

text \<open>A write to the first City or Battery at a point leaves the marks at any point.\<close>

lemma hit_city_keeps:
  "\<forall>c\<in>set cs. pos c = t \<longrightarrow> City.destroyed c \<Longrightarrow>
   \<forall>c\<in>set (hit_city t' cs). pos c = t \<longrightarrow> City.destroyed c"
  by (induction cs) auto

lemma hit_battery_keeps:
  "\<forall>b\<in>set bs. pos b = t \<longrightarrow> Battery.destroyed b \<Longrightarrow>
   \<forall>b\<in>set (hit_battery t' bs). pos b = t \<longrightarrow> Battery.destroyed b"
  by (induction bs) auto

text \<open>With pairwise distinct positions the first City at the point is the only one.\<close>

lemma hit_city_marks:
  "distinct (map pos cs) \<Longrightarrow> \<forall>c\<in>set (hit_city t cs). pos c = t \<longrightarrow> City.destroyed c"
proof (induction cs)
  case Nil
  then show ?case by simp
next
  case (Cons c cs)
  show ?case
  proof (cases "xc (pos c) = xc t \<and> yc (pos c) = yc t")
    case True
    then have "pos c = t" by simp
    with Cons.prems have "\<forall>c'\<in>set cs. pos c' \<noteq> t" by (metis distinct.simps(2) image_eqI list.simps(9) set_map)
    with True show ?thesis by simp
  next
    case False
    then have "pos c \<noteq> t" by auto
    with False Cons show ?thesis by auto
  qed
qed

lemma hit_battery_marks:
  "distinct (map pos bs) \<Longrightarrow> \<forall>b\<in>set (hit_battery t bs). pos b = t \<longrightarrow> Battery.destroyed b"
proof (induction bs)
  case Nil
  then show ?case by simp
next
  case (Cons b bs)
  show ?case
  proof (cases "xc (pos b) = xc t \<and> yc (pos b) = yc t")
    case True
    then have "pos b = t" by simp
    with Cons.prems have "\<forall>b'\<in>set bs. pos b' \<noteq> t" by (metis distinct.simps(2) image_eqI list.simps(9) set_map)
    with True show ?thesis by simp
  next
    case False
    then have "pos b \<noteq> t" by auto
    with False Cons show ?thesis by auto
  qed
qed

lemma update_rockets_keeps:
  "\<forall>c\<in>set cs. pos c = t \<longrightarrow> City.destroyed c \<Longrightarrow>
   \<forall>c\<in>set (fst (snd (update_rockets rs cs bs))). pos c = t \<longrightarrow> City.destroyed c"
proof (induction rs arbitrary: cs bs)
  case Nil
  then show ?case by simp
next
  case (Cons a rs)
  show ?case
  proof (cases "rocket_arrived a")
    case True
    with Cons.IH[OF hit_city_keeps[OF Cons.prems]] show ?thesis by simp
  next
    case False
    with Cons.IH[OF Cons.prems] show ?thesis by (simp add: case_prod_beta)
  qed
qed

lemma update_rockets_keeps_b:
  "\<forall>b\<in>set bs. pos b = t \<longrightarrow> Battery.destroyed b \<Longrightarrow>
   \<forall>b\<in>set (snd (snd (update_rockets rs cs bs))). pos b = t \<longrightarrow> Battery.destroyed b"
proof (induction rs arbitrary: cs bs)
  case Nil
  then show ?case by simp
next
  case (Cons a rs)
  show ?case
  proof (cases "rocket_arrived a")
    case True
    with Cons.IH[OF hit_battery_keeps[OF Cons.prems]] show ?thesis by simp
  next
    case False
    with Cons.IH[OF Cons.prems] show ?thesis by (simp add: case_prod_beta)
  qed
qed

lemma update_rockets_marks:
  "r \<in> set rs \<Longrightarrow> rocket_arrived r \<Longrightarrow> distinct (map pos cs) \<Longrightarrow>
   \<forall>c\<in>set (fst (snd (update_rockets rs cs bs))). pos c = Rocket.target r \<longrightarrow> City.destroyed c"
proof (induction rs arbitrary: cs bs)
  case Nil
  then show ?case by simp
next
  case (Cons a rs)
  show ?case
  proof (cases "r = a")
    case True
    with Cons.prems update_rockets_keeps[OF hit_city_marks[OF Cons.prems(3)]]
    show ?thesis by simp
  next
    case False
    with Cons.prems have r: "r \<in> set rs" by simp
    show ?thesis
    proof (cases "rocket_arrived a")
      case True
      from Cons.prems(3) have "distinct (map pos (hit_city (Rocket.target a) cs))"
        by (simp add: hit_city_pos)
      from Cons.IH[OF r Cons.prems(2) this] True show ?thesis by simp
    next
      case False
      with Cons.IH[OF r Cons.prems(2,3)] show ?thesis by (simp add: case_prod_beta)
    qed
  qed
qed

lemma update_rockets_marks_b:
  "r \<in> set rs \<Longrightarrow> rocket_arrived r \<Longrightarrow> distinct (map pos bs) \<Longrightarrow>
   \<forall>b\<in>set (snd (snd (update_rockets rs cs bs))). pos b = Rocket.target r \<longrightarrow> Battery.destroyed b"
proof (induction rs arbitrary: cs bs)
  case Nil
  then show ?case by simp
next
  case (Cons a rs)
  show ?case
  proof (cases "r = a")
    case True
    with Cons.prems update_rockets_keeps_b[OF hit_battery_marks[OF Cons.prems(3)]]
    show ?thesis by simp
  next
    case False
    with Cons.prems have r: "r \<in> set rs" by simp
    show ?thesis
    proof (cases "rocket_arrived a")
      case True
      from Cons.prems(3) have "distinct (map pos (hit_battery (Rocket.target a) bs))"
        by (simp add: hit_battery_pos)
      from Cons.IH[OF r Cons.prems(2) this] True show ?thesis by simp
    next
      case False
      with Cons.IH[OF r Cons.prems(2,3)] show ?thesis by (simp add: case_prod_beta)
    qed
  qed
qed

lemma rockets_with_spawn: "set (rockets s) \<subseteq> set (rockets (with_spawn d s))"
  by (auto simp: with_spawn_def spawnRocket_def Let_def)

lemma rockets_tick:
  "rockets (tick ids prev) =
     (if levels_up ids prev then []
      else filter (\<lambda>q. \<not> rocket_hit (current_explosions ids prev) q)
             (map rocket_step (filter (\<lambda>q. \<not> rocket_arrived q) (rockets prev))))"
  by (simp add: tick_levelup tick_other moved_rockets_def update_rockets_fst)

lemma batteries_tick_set:
  "b \<in> set (batteries (tick ids prev)) \<Longrightarrow>
   \<exists>b'\<in>set (struck_batteries prev). pos b' = pos b \<and> Battery.destroyed b' = Battery.destroyed b"
  by (cases "levels_up ids prev") (auto simp: tick_levelup tick_other)

lemma unit_direction:
  assumes "0 < hypot dx dy"
  shows "hypot (dx / hypot dx dy) (dy / hypot dx dy) = 1"
proof -
  let ?h = "hypot dx dy"
  have sq: "?h * ?h = dx * dx + dy * dy"
    by (simp add: hypot_def)
  have "(dx / ?h) * (dx / ?h) + (dy / ?h) * (dy / ?h) = (dx * dx + dy * dy) / (?h * ?h)"
    by (simp add: add_divide_distrib)
  also have "\<dots> = 1" using assms by (simp add: sq[symmetric])
  finally show ?thesis by (simp add: hypot_def)
qed

text \<open>
  C5.  In any state of a run with status PLAYING, take a Rocket \<open>r\<close> of the state and
  one more frame.  If the distance of \<open>r\<close> to its target is below its speed, then in
  the state after the frame every City at the target of \<open>r\<close> is destroyed and every
  Battery at the target of \<open>r\<close> is destroyed.  If it is not, the moved copy of \<open>r\<close> is
  \<open>r\<close> with its position advanced by its speed times the vector from \<open>r\<close> to its
  target divided by the distance, a vector of length 1.  In both cases the Rockets of
  the state after the frame are the moved copies of the Rockets that had not arrived
  (so none for \<open>r\<close> when it had), less those caught by an Explosion, and none at all
  on a level-up.
\<close>

theorem rocket_arrival:
  "status (run evs) = PLAYING \<Longrightarrow> r \<in> set (rockets (run evs)) \<Longrightarrow>
   (rocket_arrived r \<longrightarrow>
      (\<forall>c\<in>set (cities (update d (run evs))). pos c = Rocket.target r \<longrightarrow> City.destroyed c) \<and>
      (\<forall>b\<in>set (batteries (update d (run evs))). pos b = Rocket.target r \<longrightarrow> Battery.destroyed b)) \<and>
   (\<not> rocket_arrived r \<longrightarrow>
      (let ux = (xc (Rocket.target r) - xc (pos r)) / rocket_dist r;
           uy = (yc (Rocket.target r) - yc (pos r)) / rocket_dist r
       in hypot ux uy = 1 \<and>
          rocket_step r =
            r\<lparr>pos := \<lparr>xc = xc (pos r) + ux * Rocket.speed r,
                      yc = yc (pos r) + uy * Rocket.speed r\<rparr>\<rparr>)) \<and>
   r \<in> set (rockets (with_spawn d (run evs))) \<and>
   rockets (update d (run evs)) =
     (if levels_up (explosion_ids d) (with_spawn d (run evs)) then []
      else filter (\<lambda>q. \<not> rocket_hit (current_explosions (explosion_ids d) (with_spawn d (run evs))) q)
             (map rocket_step
                (filter (\<lambda>q. \<not> rocket_arrived q) (rockets (with_spawn d (run evs))))))"
proof -
  assume p: "status (run evs) = PLAYING" and r: "r \<in> set (rockets (run evs))"
  let ?s = "run evs"
  let ?prev = "with_spawn d ?s" and ?ids = "explosion_ids d"
  from p have u: "update d ?s = tick ?ids ?prev" by (rule update_tick)
  from r rockets_with_spawn have r': "r \<in> set (rockets ?prev)" by blast
  have inv: "game_inv ?prev" by (simp add: inv_run inv_with_spawn)
  then have dc: "distinct (map pos (cities ?prev))" and db: "distinct (map pos (batteries ?prev))"
    by (simp_all add: game_inv_def layout_distinct)
  have A: "\<forall>c\<in>set (cities (update d ?s)). pos c = Rocket.target r \<longrightarrow> City.destroyed c"
    if "rocket_arrived r"
    using update_rockets_marks[OF r' that dc] by (simp add: u tick_cities struck_cities_def)
  have B: "\<forall>b\<in>set (batteries (update d ?s)). pos b = Rocket.target r \<longrightarrow> Battery.destroyed b"
    if "rocket_arrived r"
  proof (intro ballI impI)
    fix b assume "b \<in> set (batteries (update d ?s))" and t: "pos b = Rocket.target r"
    with u batteries_tick_set obtain b' where b': "b' \<in> set (struck_batteries ?prev)"
      "pos b' = pos b" "Battery.destroyed b' = Battery.destroyed b" by metis
    with update_rockets_marks_b[OF r' that db, of "cities ?prev"] t
    show "Battery.destroyed b" by (simp add: struck_batteries_def)
  qed
  have C: "hypot ((xc (Rocket.target r) - xc (pos r)) / rocket_dist r)
                 ((yc (Rocket.target r) - yc (pos r)) / rocket_dist r) = 1"
    if "\<not> rocket_arrived r"
  proof -
    from inv r' have "0 < Rocket.speed r" by (simp add: game_inv_def list_all_iff)
    with that have "0 < rocket_dist r" by (simp add: rocket_arrived_def)
    then show ?thesis unfolding rocket_dist_def by (rule unit_direction)
  qed
  have D: "rocket_step r =
            r\<lparr>pos := \<lparr>xc = xc (pos r) + (xc (Rocket.target r) - xc (pos r)) / rocket_dist r * Rocket.speed r,
                      yc = yc (pos r) + (yc (Rocket.target r) - yc (pos r)) / rocket_dist r * Rocket.speed r\<rparr>\<rparr>"
    by (simp add: rocket_step_def rocket_dist_def Let_def)
  have E: "rockets (update d ?s) =
     (if levels_up ?ids ?prev then []
      else filter (\<lambda>q. \<not> rocket_hit (current_explosions ?ids ?prev) q)
             (map rocket_step (filter (\<lambda>q. \<not> rocket_arrived q) (rockets ?prev))))"
    by (simp only: u rockets_tick)
  from A B C D E r' show ?thesis by (simp only: Let_def) blast
qed

lemma hypot_vertical: "hypot 0 b = \<bar>b\<bar>"
  by (simp add: hypot_def)

lemma foldl_replicate: "foldl f s (replicate n e) = ((\<lambda>s. f s e) ^^ n) s"
proof (induction n arbitrary: s)
  case 0
  then show ?case by simp
next
  case (Suc n)
  have "((\<lambda>s. f s e) ^^ n) ((\<lambda>s. f s e) s) = (\<lambda>s. f s e) (((\<lambda>s. f s e) ^^ n) s)"
    by (rule funpow_swap1[symmetric])
  with Suc show ?case by simp
qed

lemma run_replicate:
  "run (evs @ replicate n e) = ((\<lambda>s. apply_event s e) ^^ n) (run evs)"
  by (simp add: run_def foldl_replicate)

lemma fall_start: "run [Start, Frame spawning] = falling 1"
  by (simp add: run_def initGame_def update_def spawnRocket_def spawning_def falling_def
      tick_def Let_def const_defs layout_defs rocket_arrived_def rocket_dist_def rocket_step_def
      rocket_hit_def hypot_vertical)

lemma fall_step: "0 \<le> h \<Longrightarrow> h \<le> 549 \<Longrightarrow> update quiet (falling h) = falling (h + 1)"
  by (simp add: update_def quiet_def falling_def
      tick_def Let_def const_defs layout_defs rocket_arrived_def rocket_dist_def rocket_step_def
      rocket_hit_def hypot_vertical)

lemma fall_steps: "n \<le> 549 \<Longrightarrow> (update quiet ^^ n) (falling 1) = falling (1 + real n)"
  by (induction n) (simp_all add: fall_step add.commute)

lemma fall_end: "run descent = falling 550"
  unfolding descent_def by (simp only: run_replicate fall_start) (simp add: fall_steps)

text \<open>
  After \<open>descent\<close> the Rocket is on its target, the first City: one more frame destroys
  that City and leaves no Rocket.  One frame after its spawn the Rocket is not there
  yet and moves one unit straight down.
\<close>

theorem rocket_arrival_witness:
  "status (run descent) = PLAYING \<and> landing \<in> set (rockets (run descent)) \<and>
   rocket_arrived landing \<and>
   pos (cities (update quiet (run descent)) ! 0) = Rocket.target landing \<and>
   City.destroyed (cities (update quiet (run descent)) ! 0) \<and>
   rockets (update quiet (run descent)) = [] \<and>
   status (run [Start, Frame spawning]) = PLAYING \<and>
   aloft \<in> set (rockets (run [Start, Frame spawning])) \<and>
   \<not> rocket_arrived aloft \<and>
   rocket_step aloft = aloft\<lparr>pos := \<lparr>xc = 150, yc = 2\<rparr>\<rparr>"
proof -
  have 1: "status (run descent) = PLAYING" by (simp add: fall_end falling_def)
  have 2: "landing \<in> set (rockets (run descent))"
    by (simp add: fall_end falling_def landing_def)
  have 3: "rocket_arrived landing"
    by (simp add: rocket_arrived_def rocket_dist_def landing_def hypot_vertical)
  note t = rocket_arrival[OF 1 2, of quiet, THEN conjunct1, rule_format, OF 3, THEN conjunct1]
  have 4: "pos (cities (update quiet (run descent)) ! 0) = Rocket.target landing"
    and 5: "cities (update quiet (run descent)) ! 0 \<in> set (cities (update quiet (run descent)))"
    and 6: "rockets (update quiet (run descent)) = []"
    by (simp_all add: fall_end falling_def landing_def update_def quiet_def
      tick_def Let_def const_defs layout_defs rocket_arrived_def rocket_dist_def rocket_step_def
      rocket_hit_def hypot_vertical)
  from t 4 5 have 7: "City.destroyed (cities (update quiet (run descent)) ! 0)" by blast
  have 8: "status (run [Start, Frame spawning]) = PLAYING" by (simp add: fall_start falling_def)
  have 9: "aloft \<in> set (rockets (run [Start, Frame spawning]))"
    by (simp add: fall_start falling_def aloft_def)
  have 10: "\<not> rocket_arrived aloft"
    by (simp add: rocket_arrived_def rocket_dist_def aloft_def hypot_vertical)
  note m = rocket_arrival[OF 8 9, of quiet, THEN conjunct2, THEN conjunct1, rule_format, OF 10]
  have d: "rocket_dist aloft = 549"
    by (simp add: rocket_dist_def aloft_def hypot_vertical)
  from m have 11: "rocket_step aloft = aloft\<lparr>pos := \<lparr>xc = 150, yc = 2\<rparr>\<rparr>"
    by (simp add: Let_def d) (simp add: aloft_def)
  from 1 2 3 4 6 7 8 9 10 11 show ?thesis by simp
qed

section \<open>Creation of an Explosion\<close>

lemma with_spawn_fields:
  "destroyedCount (with_spawn d s) = destroyedCount s"
  "interceptors (with_spawn d s) = interceptors s"
  "explosions (with_spawn d s) = explosions s"
  "level (with_spawn d s) = level s"
  "score (with_spawn d s) = score s"
  by (simp_all add: with_spawn_def spawnRocket_def Let_def)

text \<open>
  C4.  The Explosions that step 3 of a frame appends to those of the state, one for
  each Interceptor that arrives and in their order, are centred at the target of the
  Interceptor and have radius 2, \<open>growing\<close> true, alpha 1 and
  \<open>maxRadius = 40 * (0.5 + floor (destroyedCount / 5) * 0.5)\<close>, where \<open>destroyedCount\<close> is
  that of the state before the frame: the kills of step 5 come later.
\<close>

theorem explosion_creation:
  "pushed_explosions (explosion_ids d) (with_spawn d s) =
     explosions s @
     map (\<lambda>(n, i).
            \<lparr>ident = explosion_ids d n, pos = Interceptor.target i, radius = 2,
             maxRadius = 40 * (0.5 + real_of_int \<lfloor>destroyedCount s / 5\<rfloor> * 0.5),
             growing = True, alpha = 1\<rparr>)
         (enumerate 0 (filter interceptor_arrived (interceptors s)))"
  by (auto simp: pushed_explosions_def with_spawn_fields update_interceptors_snd
      new_explosion_def EXPLOSION_MAX_RADIUS_def Let_def)

text \<open>
  In \<open>intercept_state\<close> the frame creates an Explosion with \<open>maxRadius\<close> 40 from
  \<open>destroyedCount\<close> 9, and catches a Rocket in it: the state after the frame has
  \<open>destroyedCount\<close> 10 and the Explosion, grown once, still with \<open>maxRadius\<close> 40.
\<close>

theorem explosion_creation_witness:
  "status intercept_state = PLAYING \<and>
   pushed_explosions (explosion_ids quiet) (with_spawn quiet intercept_state) =
     [\<lparr>ident = ''e'', pos = \<lparr>xc = 50, yc = 500\<rparr>, radius = 2, maxRadius = 40,
       growing = True, alpha = 1\<rparr>] \<and>
   destroyedCount intercept_state = 9 \<and>
   destroyedCount (update quiet intercept_state) = 10 \<and>
   explosions (update quiet intercept_state) =
     [\<lparr>ident = ''e'', pos = \<lparr>xc = 50, yc = 500\<rparr>, radius = 3.5, maxRadius = 40,
       growing = True, alpha = 1\<rparr>]"
proof -
  have a: "filter interceptor_arrived (interceptors intercept_state) = interceptors intercept_state"
    by (simp add: intercept_state_def interceptor_arrived_def hypot_vertical)
  have 1: "pushed_explosions (explosion_ids quiet) (with_spawn quiet intercept_state) =
     [\<lparr>ident = ''e'', pos = \<lparr>xc = 50, yc = 500\<rparr>, radius = 2, maxRadius = 40,
       growing = True, alpha = 1\<rparr>]"
    unfolding explosion_creation[of quiet intercept_state] a
    by (simp add: intercept_state_def quiet_def)
  have 2: "destroyedCount (update quiet intercept_state) = 10 \<and>
    explosions (update quiet intercept_state) =
     [\<lparr>ident = ''e'', pos = \<lparr>xc = 50, yc = 500\<rparr>, radius = 3.5, maxRadius = 40,
       growing = True, alpha = 1\<rparr>]"
    by (simp add: intercept_state_def update_def quiet_def
      tick_def Let_def const_defs layout_defs rocket_arrived_def rocket_dist_def rocket_step_def
      rocket_hit_def hypot_vertical interceptor_arrived_def new_explosion_def update_explosion_def
      explosion_alive_def)
  from 1 2 show ?thesis by (simp add: intercept_state_def)
qed

end
